theory Spec2Isabelle
  imports Main "HOL-Library.Word"
begin

unbundle bit_operations_syntax

section \<open>Data model of the pipeline simulator (forwarding.cpp)\<close>

text \<open>
  \<^verbatim>\<open>uint32_t\<close> and \<open>int32_t\<close> values are 32-bit words: addition and subtraction wrap,
  \<open>sint\<close> reads the two's-complement value and \<open>uint\<close>/\<open>unat\<close> the unsigned one.
  Register indices are C \<open>int\<close>s (the sentinel is \<open>-1\<close>) and are modelled as \<open>int\<close>.
\<close>

type_synonym word32 = "32 word"

datatype InstructionFormat = R_TYPE | I_TYPE | S_TYPE | B_TYPE | U_TYPE | J_TYPE

text \<open>The enumeration \<open>Opcode\<close>; the three constructors whose names are taken by the
  bit operations carry the suffix \<open>_op\<close>.\<close>

datatype Opcode =
    ADD | SUB | SLL | SLT | SLTU | XOR_op | SRL | SRA | OR_op | AND_op
  | ADDI | SLTI | SLTIU | XORI | ORI | ANDI | SLLI | SRLI | SRAI | LB | LH | LW | LBU | LHU
  | SB | SH | SW
  | BEQ | BNE | BLT | BGE | BLTU | BGEU
  | LUI | AUIPC
  | JAL | JALR
  | INVALID

text \<open>The enumerator values, used where the source compares opcodes with \<open>>=\<close> and \<open><=\<close>.\<close>

fun Opcode_value :: "Opcode \<Rightarrow> nat" where
  "Opcode_value ADD = 0" | "Opcode_value SUB = 1" | "Opcode_value SLL = 2"
| "Opcode_value SLT = 3" | "Opcode_value SLTU = 4" | "Opcode_value XOR_op = 5"
| "Opcode_value SRL = 6" | "Opcode_value SRA = 7" | "Opcode_value OR_op = 8"
| "Opcode_value AND_op = 9" | "Opcode_value ADDI = 10" | "Opcode_value SLTI = 11"
| "Opcode_value SLTIU = 12" | "Opcode_value XORI = 13" | "Opcode_value ORI = 14"
| "Opcode_value ANDI = 15" | "Opcode_value SLLI = 16" | "Opcode_value SRLI = 17"
| "Opcode_value SRAI = 18" | "Opcode_value LB = 19" | "Opcode_value LH = 20"
| "Opcode_value LW = 21" | "Opcode_value LBU = 22" | "Opcode_value LHU = 23"
| "Opcode_value SB = 24" | "Opcode_value SH = 25" | "Opcode_value SW = 26"
| "Opcode_value BEQ = 27" | "Opcode_value BNE = 28" | "Opcode_value BLT = 29"
| "Opcode_value BGE = 30" | "Opcode_value BLTU = 31" | "Opcode_value BGEU = 32"
| "Opcode_value LUI = 33" | "Opcode_value AUIPC = 34" | "Opcode_value JAL = 35"
| "Opcode_value JALR = 36" | "Opcode_value INVALID = 37"

record Instruction =
  raw :: word32
  opcode :: Opcode
  format :: InstructionFormat
  rs1 :: int
  rs2 :: int
  rd :: int
  immediate :: word32

record ControlSignals =
  regWrite :: bool
  memRead :: bool
  memWrite :: bool
  memToReg :: bool
  aluSrc :: bool
  branch :: bool
  jump :: bool
  aluOp :: int

record ALUResult =
  result :: word32
  zero :: bool
  negative :: bool
  overflow :: bool

text \<open>The four pipeline registers. Their fields carry the register's name as a prefix,
  since the source reuses \<open>pc\<close>, \<open>instruction\<close>, \<open>control\<close> and \<open>valid\<close> in each struct.\<close>

record IF_ID_Register =
  ifid_pc :: word32
  ifid_instruction :: Instruction
  ifid_valid :: bool

record ID_EX_Register =
  idex_pc :: word32
  idex_instruction :: Instruction
  idex_readData1 :: word32
  idex_readData2 :: word32
  idex_immediate :: word32
  idex_control :: ControlSignals
  idex_valid :: bool

record EX_MEM_Register =
  exmem_pc :: word32
  exmem_branchTarget :: word32
  exmem_instruction :: Instruction
  exmem_aluResult :: ALUResult
  exmem_readData2 :: word32
  exmem_control :: ControlSignals
  exmem_branchTaken :: bool
  exmem_valid :: bool

record MEM_WB_Register =
  memwb_pc :: word32
  memwb_instruction :: Instruction
  memwb_aluResult :: word32
  memwb_readData :: word32
  memwb_control :: ControlSignals
  memwb_valid :: bool

datatype ForwardSource = FROM_REG | FROM_EX_MEM | FROM_MEM_WB

text \<open>
  The processor. \<open>instMem\<close>, \<open>regFile\<close> and \<open>dataMem\<close> are the vectors/arrays inside
  the three storage structs. \<open>instructionTraces\<close> keeps only the \<open>address\<close> of each trace
  entry: the fetch and decode stages search the entries by address, while the
  disassembly text and the per-cycle stage labels are written and never read back by a stage.
  The two counters are C \<open>int\<close>s that start at 0 and grow by at most one per cycle of an
  \<open>int\<close>-bounded loop, so they are modelled as unbounded \<open>int\<close>.
\<close>

record Processor =
  pc :: word32
  instMem :: "word32 list"
  regFile :: "word32 list"
  dataMem :: "8 word list"
  ifId :: IF_ID_Register
  idEx :: ID_EX_Register
  exMem :: EX_MEM_Register
  memWb :: MEM_WB_Register
  clockCycle :: int
  instructionsExecuted :: int
  instructionTraces :: "word32 list"

subsection \<open>Default constructors\<close>

definition Instruction_new :: Instruction where
  "Instruction_new = \<lparr>raw = 0, opcode = INVALID, format = R_TYPE,
     rs1 = -1, rs2 = -1, rd = -1, immediate = 0\<rparr>"

definition ControlSignals_new :: ControlSignals where
  "ControlSignals_new = \<lparr>regWrite = False, memRead = False, memWrite = False,
     memToReg = False, aluSrc = False, branch = False, jump = False, aluOp = 0\<rparr>"

definition ALUResult_new :: ALUResult where
  "ALUResult_new = \<lparr>result = 0, zero = False, negative = False, overflow = False\<rparr>"

definition IF_ID_Register_new :: IF_ID_Register where
  "IF_ID_Register_new = \<lparr>ifid_pc = 0, ifid_instruction = Instruction_new, ifid_valid = False\<rparr>"

definition ID_EX_Register_new :: ID_EX_Register where
  "ID_EX_Register_new = \<lparr>idex_pc = 0, idex_instruction = Instruction_new,
     idex_readData1 = 0, idex_readData2 = 0, idex_immediate = 0,
     idex_control = ControlSignals_new, idex_valid = False\<rparr>"

definition EX_MEM_Register_new :: EX_MEM_Register where
  "EX_MEM_Register_new = \<lparr>exmem_pc = 0, exmem_branchTarget = 0,
     exmem_instruction = Instruction_new, exmem_aluResult = ALUResult_new,
     exmem_readData2 = 0, exmem_control = ControlSignals_new,
     exmem_branchTaken = False, exmem_valid = False\<rparr>"

definition MEM_WB_Register_new :: MEM_WB_Register where
  "MEM_WB_Register_new = \<lparr>memwb_pc = 0, memwb_instruction = Instruction_new,
     memwb_aluResult = 0, memwb_readData = 0, memwb_control = ControlSignals_new,
     memwb_valid = False\<rparr>"

text \<open>\<open>Processor()\<close>: a zeroed register file and a data memory of 1024 zero bytes.\<close>

definition Processor_new :: Processor where
  "Processor_new = \<lparr>pc = 0, instMem = [], regFile = replicate 32 0,
     dataMem = replicate 1024 0, ifId = IF_ID_Register_new, idEx = ID_EX_Register_new,
     exMem = EX_MEM_Register_new, memWb = MEM_WB_Register_new,
     clockCycle = 0, instructionsExecuted = 0, instructionTraces = []\<rparr>"

subsection \<open>Storage\<close>

definition readInstruction :: "word32 list \<Rightarrow> word32 \<Rightarrow> word32" where
  "readInstruction memory address =
     (if unat address div 4 < length memory then memory ! (unat address div 4) else 0)"

definition RegisterFile_read :: "word32 list \<Rightarrow> int \<Rightarrow> word32" where
  "RegisterFile_read registers reg =
     (if 0 \<le> reg \<and> reg < 32 then registers ! nat reg else 0)"

definition RegisterFile_write :: "word32 list \<Rightarrow> int \<Rightarrow> word32 \<Rightarrow> word32 list" where
  "RegisterFile_write registers reg v =
     (if 0 < reg \<and> reg < 32 then registers[nat reg := v] else registers)"

text \<open>
  \<open>DataMemory::read\<close> and \<open>DataMemory::write\<close>. The guard \<open>address + size - 1 < memory.size()\<close>
  is evaluated in \<open>uint32_t\<close>, so it wraps for the last addresses of the address space; the
  loop then indexes the vector at \<open>address + i\<close> (again a \<open>uint32_t\<close>). An index outside the
  vector is undefined behaviour in C++: the model returns \<open>None\<close> there.
\<close>

definition DataMemory_read :: "8 word list \<Rightarrow> word32 \<Rightarrow> nat \<Rightarrow> word32 option" where
  "DataMemory_read memory address sz =
     (if unat (address + of_nat sz - 1) < length memory then
        fold (\<lambda>i acc. case acc of None \<Rightarrow> None
                | Some v \<Rightarrow>
                    (let idx = unat (address + of_nat i) in
                     if idx < length memory
                     then Some (v OR push_bit (i * 8) (ucast (memory ! idx)))
                     else None))
             [0..<sz] (Some 0)
      else Some 0)"

definition DataMemory_write :: "8 word list \<Rightarrow> word32 \<Rightarrow> word32 \<Rightarrow> nat \<Rightarrow> 8 word list option" where
  "DataMemory_write memory address v sz =
     (if unat (address + of_nat sz - 1) < length memory then
        fold (\<lambda>i acc. case acc of None \<Rightarrow> None
                | Some m \<Rightarrow>
                    (let idx = unat (address + of_nat i) in
                     if idx < length m
                     then Some (m[idx := ucast (signed_drop_bit (i * 8) v AND 0xFF)])
                     else None))
             [0..<sz] (Some memory)
      else Some memory)"

subsection \<open>Decoder\<close>

text \<open>
  \<open>Processor::decodeInstruction\<close> writes into the \<open>Instruction\<close> it is handed and
  sets only the fields of the selected format: every other field keeps the value it had.
  The model therefore takes the previous content of the instruction as an argument.
  One definition per arm of the outer \<open>switch\<close>.
\<close>

definition field5 :: "word32 \<Rightarrow> nat \<Rightarrow> int" where
  "field5 rawInst n = uint (drop_bit n rawInst AND 0x1F)"

definition funct3 :: "word32 \<Rightarrow> word32" where
  "funct3 rawInst = drop_bit 12 rawInst AND 0x7"

definition funct7 :: "word32 \<Rightarrow> word32" where
  "funct7 rawInst = drop_bit 25 rawInst AND 0x7F"

definition immediate_I :: "word32 \<Rightarrow> word32" where
  "immediate_I rawInst =
     (let imm = drop_bit 20 rawInst in
      if imm AND 0x800 \<noteq> 0 then imm OR 0xFFFFF000 else imm)"

definition decode_R :: "word32 \<Rightarrow> Instruction \<Rightarrow> Instruction" where
  "decode_R rawInst inst =
     inst\<lparr>format := R_TYPE, rd := field5 rawInst 7, rs1 := field5 rawInst 15,
          rs2 := field5 rawInst 20,
          opcode :=
            (if funct7 rawInst = 0x00 then
               (if funct3 rawInst = 0x0 then ADD
                else if funct3 rawInst = 0x1 then SLL
                else if funct3 rawInst = 0x2 then SLT
                else if funct3 rawInst = 0x3 then SLTU
                else if funct3 rawInst = 0x4 then XOR_op
                else if funct3 rawInst = 0x5 then SRL
                else if funct3 rawInst = 0x6 then OR_op
                else if funct3 rawInst = 0x7 then AND_op
                else INVALID)
             else if funct7 rawInst = 0x20 then
               (if funct3 rawInst = 0x0 then SUB
                else if funct3 rawInst = 0x5 then SRA
                else INVALID)
             else INVALID)\<rparr>"

definition decode_I_arith :: "word32 \<Rightarrow> Instruction \<Rightarrow> Instruction" where
  "decode_I_arith rawInst inst =
     inst\<lparr>format := I_TYPE, rd := field5 rawInst 7, rs1 := field5 rawInst 15,
          immediate := immediate_I rawInst,
          opcode :=
            (if funct3 rawInst = 0x0 then ADDI
             else if funct3 rawInst = 0x2 then SLTI
             else if funct3 rawInst = 0x3 then SLTIU
             else if funct3 rawInst = 0x4 then XORI
             else if funct3 rawInst = 0x6 then ORI
             else if funct3 rawInst = 0x7 then ANDI
             else if funct3 rawInst = 0x1 then SLLI
             else if funct3 rawInst = 0x5 then
               (if funct7 rawInst = 0x00 then SRLI
                else if funct7 rawInst = 0x20 then SRAI
                else INVALID)
             else INVALID)\<rparr>"

definition decode_I_load :: "word32 \<Rightarrow> Instruction \<Rightarrow> Instruction" where
  "decode_I_load rawInst inst =
     inst\<lparr>format := I_TYPE, rd := field5 rawInst 7, rs1 := field5 rawInst 15,
          immediate := immediate_I rawInst,
          opcode :=
            (if funct3 rawInst = 0x0 then LB
             else if funct3 rawInst = 0x1 then LH
             else if funct3 rawInst = 0x2 then LW
             else if funct3 rawInst = 0x4 then LBU
             else if funct3 rawInst = 0x5 then LHU
             else INVALID)\<rparr>"

definition immediate_S :: "word32 \<Rightarrow> word32" where
  "immediate_S rawInst =
     (let imm = push_bit 5 (drop_bit 25 rawInst AND 0x7F) OR (drop_bit 7 rawInst AND 0x1F) in
      if imm AND 0x800 \<noteq> 0 then imm OR 0xFFFFF000 else imm)"

definition decode_S :: "word32 \<Rightarrow> Instruction \<Rightarrow> Instruction" where
  "decode_S rawInst inst =
     inst\<lparr>format := S_TYPE, rs1 := field5 rawInst 15, rs2 := field5 rawInst 20,
          immediate := immediate_S rawInst,
          opcode :=
            (if funct3 rawInst = 0x0 then SB
             else if funct3 rawInst = 0x1 then SH
             else if funct3 rawInst = 0x2 then SW
             else INVALID)\<rparr>"

definition immediate_B :: "word32 \<Rightarrow> word32" where
  "immediate_B rawInst =
     (let imm = push_bit 12 (drop_bit 31 rawInst AND 0x1)
                OR push_bit 11 (drop_bit 7 rawInst AND 0x1)
                OR push_bit 5 (drop_bit 25 rawInst AND 0x3F)
                OR push_bit 1 (drop_bit 8 rawInst AND 0xF) in
      if imm AND 0x1000 \<noteq> 0 then imm OR 0xFFFFE000 else imm)"

definition decode_B :: "word32 \<Rightarrow> Instruction \<Rightarrow> Instruction" where
  "decode_B rawInst inst =
     inst\<lparr>format := B_TYPE, rs1 := field5 rawInst 15, rs2 := field5 rawInst 20,
          immediate := immediate_B rawInst,
          opcode :=
            (if funct3 rawInst = 0x0 then BEQ
             else if funct3 rawInst = 0x1 then BNE
             else if funct3 rawInst = 0x4 then BLT
             else if funct3 rawInst = 0x5 then BGE
             else if funct3 rawInst = 0x6 then BLTU
             else if funct3 rawInst = 0x7 then BGEU
             else INVALID)\<rparr>"

definition decode_U :: "word32 \<Rightarrow> Opcode \<Rightarrow> Instruction \<Rightarrow> Instruction" where
  "decode_U rawInst opc inst =
     inst\<lparr>format := U_TYPE, rd := field5 rawInst 7,
          immediate := rawInst AND 0xFFFFF000, opcode := opc\<rparr>"

definition immediate_J :: "word32 \<Rightarrow> word32" where
  "immediate_J rawInst =
     (let imm = push_bit 20 (drop_bit 31 rawInst AND 0x1)
                OR push_bit 12 (drop_bit 12 rawInst AND 0xFF)
                OR push_bit 11 (drop_bit 20 rawInst AND 0x1)
                OR push_bit 1 (drop_bit 21 rawInst AND 0x3FF) in
      if imm AND 0x100000 \<noteq> 0 then imm OR 0xFFF00000 else imm)"

definition decode_J :: "word32 \<Rightarrow> Instruction \<Rightarrow> Instruction" where
  "decode_J rawInst inst =
     inst\<lparr>format := J_TYPE, rd := field5 rawInst 7,
          immediate := immediate_J rawInst, opcode := JAL\<rparr>"

definition decode_JALR :: "word32 \<Rightarrow> Instruction \<Rightarrow> Instruction" where
  "decode_JALR rawInst inst =
     inst\<lparr>format := I_TYPE, rd := field5 rawInst 7, rs1 := field5 rawInst 15,
          immediate := immediate_I rawInst, opcode := JALR\<rparr>"

definition decodeInstruction :: "word32 \<Rightarrow> Instruction \<Rightarrow> Instruction" where
  "decodeInstruction rawInst inst0 =
     (let inst = inst0\<lparr>raw := rawInst\<rparr>;
          opcodeField = rawInst AND 0x7F in
      if opcodeField = 0x33 then decode_R rawInst inst
      else if opcodeField = 0x13 then decode_I_arith rawInst inst
      else if opcodeField = 0x03 then decode_I_load rawInst inst
      else if opcodeField = 0x23 then decode_S rawInst inst
      else if opcodeField = 0x63 then decode_B rawInst inst
      else if opcodeField = 0x37 then decode_U rawInst LUI inst
      else if opcodeField = 0x17 then decode_U rawInst AUIPC inst
      else if opcodeField = 0x6F then decode_J rawInst inst
      else if opcodeField = 0x67 then decode_JALR rawInst inst
      else inst\<lparr>opcode := INVALID\<rparr>)"

subsection \<open>Control unit\<close>

text \<open>\<open>Processor::setControlSignals\<close>: a \<open>switch\<close> on the format alone; the opcode is
  consulted only inside the I and U arms.\<close>

definition setControlSignals :: "Instruction \<Rightarrow> ControlSignals" where
  "setControlSignals inst =
     (let control = ControlSignals_new in
      case format inst of
        R_TYPE \<Rightarrow> control\<lparr>regWrite := True, aluOp := 2\<rparr>
      | I_TYPE \<Rightarrow>
          (if opcode inst = JALR then control\<lparr>regWrite := True, jump := True, aluOp := 0\<rparr>
           else if Opcode_value LB \<le> Opcode_value (opcode inst)
                   \<and> Opcode_value (opcode inst) \<le> Opcode_value LHU
           then control\<lparr>regWrite := True, memRead := True, memToReg := True,
                         aluSrc := True, aluOp := 0\<rparr>
           else control\<lparr>regWrite := True, aluSrc := True, aluOp := 3\<rparr>)
      | S_TYPE \<Rightarrow> control\<lparr>memWrite := True, aluSrc := True, aluOp := 0\<rparr>
      | B_TYPE \<Rightarrow> control\<lparr>branch := True, aluOp := 1\<rparr>
      | U_TYPE \<Rightarrow>
          (if opcode inst = AUIPC then control\<lparr>regWrite := True, aluOp := 0, aluSrc := True\<rparr>
           else control\<lparr>regWrite := True, aluOp := 4, aluSrc := True\<rparr>)
      | J_TYPE \<Rightarrow> control\<lparr>regWrite := True, jump := True\<rparr>)"

subsection \<open>Forwarding unit and hazard detection unit\<close>

text \<open>\<open>ForwardingUnit::detectForwarding\<close>; the pair is \<open>(forwardA, forwardB)\<close>, which the
  source stores in the unit and reads back right after the call.\<close>

definition forwardSelect ::
  "int \<Rightarrow> EX_MEM_Register \<Rightarrow> MEM_WB_Register \<Rightarrow> ForwardSource" where
  "forwardSelect rs ex mw =
     (if rs \<noteq> 0 then
        (if exmem_valid ex \<and> regWrite (exmem_control ex)
            \<and> rd (exmem_instruction ex) \<noteq> 0 \<and> rd (exmem_instruction ex) = rs
         then FROM_EX_MEM
         else if memwb_valid mw \<and> regWrite (memwb_control mw)
            \<and> rd (memwb_instruction mw) \<noteq> 0 \<and> rd (memwb_instruction mw) = rs
         then FROM_MEM_WB
         else FROM_REG)
      else FROM_REG)"

definition detectForwarding ::
  "ID_EX_Register \<Rightarrow> EX_MEM_Register \<Rightarrow> MEM_WB_Register \<Rightarrow> ForwardSource \<times> ForwardSource" where
  "detectForwarding idex ex mw =
     (if \<not> idex_valid idex then (FROM_REG, FROM_REG)
      else (forwardSelect (rs1 (idex_instruction idex)) ex mw,
            forwardSelect (rs2 (idex_instruction idex)) ex mw))"

definition isBranchOrJump :: "Instruction \<Rightarrow> bool" where
  "isBranchOrJump inst \<longleftrightarrow>
     format inst = B_TYPE \<or> format inst = J_TYPE
     \<or> (format inst = I_TYPE \<and> opcode inst = JALR)"

definition usesRs1 :: "Instruction \<Rightarrow> bool" where
  "usesRs1 inst \<longleftrightarrow> rs1 inst \<noteq> 0 \<and> (format inst \<noteq> U_TYPE \<and> format inst \<noteq> J_TYPE)"

definition usesRs2 :: "Instruction \<Rightarrow> bool" where
  "usesRs2 inst \<longleftrightarrow>
     rs2 inst \<noteq> 0 \<and> (format inst = R_TYPE \<or> format inst = B_TYPE \<or> format inst = S_TYPE)"

text \<open>The test \<open>(usesRs1 && rs1 == r) || (usesRs2 && rs2 == r)\<close> that
  \<open>detectHazardF\<close> repeats for each producer.\<close>

definition readsRegister :: "Instruction \<Rightarrow> int \<Rightarrow> bool" where
  "readsRegister inst r \<longleftrightarrow>
     (usesRs1 inst \<and> rs1 inst = r) \<or> (usesRs2 inst \<and> rs2 inst = r)"

definition detectHazardF ::
  "IF_ID_Register \<Rightarrow> ID_EX_Register \<Rightarrow> EX_MEM_Register \<Rightarrow> MEM_WB_Register
     \<Rightarrow> bool \<Rightarrow> bool \<Rightarrow> bool" where
  "detectHazardF ifid idex ex mw isForwarding isIFStage =
     (let inst = ifid_instruction ifid in
      if \<not> ifid_valid ifid then False
      else if isIFStage \<and> \<not> isBranchOrJump inst then False
      else if isForwarding then
        (if idex_valid idex \<and> memRead (idex_control idex) \<and> rd (idex_instruction idex) \<noteq> 0
            \<and> readsRegister inst (rd (idex_instruction idex)) then True
         else if isBranchOrJump inst \<and> memwb_valid mw \<and> memRead (memwb_control mw)
            \<and> rd (memwb_instruction mw) \<noteq> 0
            \<and> readsRegister inst (rd (memwb_instruction mw)) then True
         else False)
      else if idex_valid idex \<and> regWrite (idex_control idex) \<and> rd (idex_instruction idex) \<noteq> 0
            \<and> readsRegister inst (rd (idex_instruction idex)) then True
      else if exmem_valid ex \<and> regWrite (exmem_control ex) \<and> rd (exmem_instruction ex) \<noteq> 0
            \<and> readsRegister inst (rd (exmem_instruction ex)) then True
      else if memwb_valid mw \<and> regWrite (memwb_control mw) \<and> rd (memwb_instruction mw) \<noteq> 0
            \<and> readsRegister inst (rd (memwb_instruction mw)) \<and> \<not> isIFStage then True
      else False)"

section \<open>The five stages\<close>

subsection \<open>Fetch\<close>

text \<open>\<open>Processor::initInstructionTrace\<close>: nothing happens when the address already has
  an entry, otherwise an entry is appended.\<close>

definition initInstructionTrace :: "word32 list \<Rightarrow> word32 \<Rightarrow> word32 list" where
  "initInstructionTrace traces a = (if a \<in> set traces then traces else traces @ [a])"

text \<open>
  \<open>instructionFetchStage\<close>. The stage returns the processor and the \<open>stall\<close> flag it was
  handed by reference. When the program counter has no trace entry the stage only clears
  \<open>ifId.valid\<close> and returns: nothing is decoded and the program counter stays.
\<close>

definition instructionFetchStage :: "Processor \<Rightarrow> bool \<Rightarrow> bool \<Rightarrow> Processor \<times> bool" where
  "instructionFetchStage cpu stall isForwarding =
     (if stall then (cpu, stall)
      else
        let instruction = readInstruction (instMem cpu) (pc cpu) in
        if pc cpu \<notin> set (instructionTraces cpu)
        then (cpu\<lparr>ifId := (ifId cpu)\<lparr>ifid_valid := False\<rparr>\<rparr>, stall)
        else
          let ifid' = \<lparr>ifid_pc = pc cpu,
                       ifid_instruction =
                         decodeInstruction instruction (ifid_instruction (ifId cpu)),
                       ifid_valid = True\<rparr>;
              cpu' = cpu\<lparr>ifId := ifid', pc := pc cpu + 4\<rparr>;
              ifStall = detectHazardF ifid' (idEx cpu') (exMem cpu') (memWb cpu')
                          isForwarding True
          in (cpu', if ifStall then True else stall))"

subsection \<open>Decode\<close>

text \<open>The extra check of the decode stage for a branch or jump under forwarding: a
  register-writing producer still in ID/EX whose destination is the \<open>rs1\<close> or \<open>rs2\<close>
  field of the instruction in IF/ID.\<close>

definition needsStall :: "Instruction \<Rightarrow> ID_EX_Register \<Rightarrow> bool" where
  "needsStall inst idex \<longleftrightarrow>
     (rs1 inst \<noteq> 0 \<and> idex_valid idex \<and> regWrite (idex_control idex)
        \<and> rd (idex_instruction idex) \<noteq> 0 \<and> rd (idex_instruction idex) = rs1 inst)
     \<or> (rs2 inst \<noteq> 0 \<and> idex_valid idex \<and> regWrite (idex_control idex)
        \<and> rd (idex_instruction idex) \<noteq> 0 \<and> rd (idex_instruction idex) = rs2 inst)"

text \<open>The value MEM/WB is about to commit: \<open>memToReg ? readData : aluResult\<close>.\<close>

definition memWbValue :: "MEM_WB_Register \<Rightarrow> word32" where
  "memWbValue mw =
     (if memToReg (memwb_control mw) then memwb_readData mw else memwb_aluResult mw)"

text \<open>\<open>rs1Value\<close> and \<open>rs2Value\<close> of the decode stage, for the register index \<open>r\<close>.\<close>

definition decodeOperand :: "Processor \<Rightarrow> bool \<Rightarrow> int \<Rightarrow> word32" where
  "decodeOperand cpu isForwarding r =
     (if isForwarding then
        (if r \<noteq> 0 then
           (if exmem_valid (exMem cpu) \<and> regWrite (exmem_control (exMem cpu))
               \<and> rd (exmem_instruction (exMem cpu)) \<noteq> 0
               \<and> rd (exmem_instruction (exMem cpu)) = r
            then result (exmem_aluResult (exMem cpu))
            else if memwb_valid (memWb cpu) \<and> regWrite (memwb_control (memWb cpu))
               \<and> rd (memwb_instruction (memWb cpu)) \<noteq> 0
               \<and> rd (memwb_instruction (memWb cpu)) = r
            then memWbValue (memWb cpu)
            else RegisterFile_read (regFile cpu) r)
         else 0)
      else RegisterFile_read (regFile cpu) r)"

text \<open>The \<open>switch\<close> over the branch opcodes: \<open>int32_t\<close> comparisons are signed, the two
  casts to \<open>uint32_t\<close> make the last two unsigned.\<close>

definition conditionMet :: "Opcode \<Rightarrow> word32 \<Rightarrow> word32 \<Rightarrow> bool" where
  "conditionMet opc rs1Value rs2Value =
     (case opc of
        BEQ \<Rightarrow> rs1Value = rs2Value
      | BNE \<Rightarrow> rs1Value \<noteq> rs2Value
      | BLT \<Rightarrow> sint rs1Value < sint rs2Value
      | BGE \<Rightarrow> sint rs1Value \<ge> sint rs2Value
      | BLTU \<Rightarrow> uint rs1Value < uint rs2Value
      | BGEU \<Rightarrow> uint rs1Value \<ge> uint rs2Value
      | _ \<Rightarrow> False)"

text \<open>Branch and jump resolution: \<open>(branchTaken, branchTarget)\<close>.\<close>

definition resolveBranch :: "IF_ID_Register \<Rightarrow> word32 \<Rightarrow> word32 \<Rightarrow> bool \<times> word32" where
  "resolveBranch ifid rs1Value rs2Value =
     (let inst = ifid_instruction ifid in
      if format inst = J_TYPE then (True, ifid_pc ifid + immediate inst)
      else if opcode inst = JALR then (True, (rs1Value + immediate inst) AND NOT 1)
      else if format inst = B_TYPE then
        (if conditionMet (opcode inst) rs1Value rs2Value
         then (True, ifid_pc ifid + immediate inst) else (False, 0))
      else (False, 0))"

text \<open>
  \<open>instructionDecodeStage\<close> returns the processor together with the three reference
  parameters \<open>stall\<close>, \<open>branchTaken\<close> and \<open>branchTarget\<close>.
\<close>

definition instructionDecodeStage ::
  "Processor \<Rightarrow> bool \<Rightarrow> bool \<Rightarrow> Processor \<times> bool \<times> bool \<times> word32" where
  "instructionDecodeStage cpu stall isForwarding =
     (let bubble = (idEx cpu)\<lparr>idex_valid := False\<rparr>;
          inst = ifid_instruction (ifId cpu) in
      if \<not> ifid_valid (ifId cpu) then (cpu\<lparr>idEx := bubble\<rparr>, stall, False, 0)
      else if detectHazardF (ifId cpu) (idEx cpu) (exMem cpu) (memWb cpu) isForwarding False
      then
        (let nextPC = pc cpu;
             traces = (if nextPC \<notin> set (instructionTraces cpu)
                          \<and> unat nextPC div 4 < length (instMem cpu)
                       then initInstructionTrace (instructionTraces cpu) nextPC
                       else instructionTraces cpu)
         in (cpu\<lparr>instructionTraces := traces, idEx := bubble\<rparr>, True, False, 0))
      else if isBranchOrJump inst \<and> isForwarding \<and> needsStall inst (idEx cpu)
      then (cpu\<lparr>idEx := bubble\<rparr>, True, False, 0)
      else
        (let (branchTaken, branchTarget) =
               (if isBranchOrJump inst
                then resolveBranch (ifId cpu)
                       (decodeOperand cpu isForwarding (rs1 inst))
                       (decodeOperand cpu isForwarding (rs2 inst))
                else (False, 0));
             control = setControlSignals inst;
             control' = (if branchTaken then control\<lparr>branch := False, jump := False\<rparr>
                         else control);
             idex' = \<lparr>idex_pc = ifid_pc (ifId cpu), idex_instruction = inst,
                       idex_readData1 = RegisterFile_read (regFile cpu) (rs1 inst),
                       idex_readData2 = RegisterFile_read (regFile cpu) (rs2 inst),
                       idex_immediate = immediate inst,
                       idex_control = control', idex_valid = True\<rparr>
         in (cpu\<lparr>idEx := idex'\<rparr>, False, branchTaken, branchTarget)))"

subsection \<open>Execute\<close>

text \<open>
  At the point where the execute stage calls \<open>detectForwarding\<close> it has already
  assigned \<open>exMem.pc\<close>, \<open>exMem.control\<close> and \<open>exMem.readData2\<close> from ID/EX, while
  \<open>exMem.instruction\<close>, \<open>exMem.aluResult\<close> and \<open>exMem.valid\<close> still belong to the previous
  instruction. \<open>exMemEntered\<close> is the register in that intermediate condition.
\<close>

definition exMemEntered :: "Processor \<Rightarrow> EX_MEM_Register" where
  "exMemEntered cpu =
     (exMem cpu)\<lparr>exmem_pc := idex_pc (idEx cpu), exmem_control := idex_control (idEx cpu),
                 exmem_readData2 := idex_readData2 (idEx cpu)\<rparr>"

definition forwardedValue :: "Processor \<Rightarrow> ForwardSource \<Rightarrow> word32 \<Rightarrow> word32" where
  "forwardedValue cpu src latched =
     (case src of
        FROM_EX_MEM \<Rightarrow> result (exmem_aluResult (exMem cpu))
      | FROM_MEM_WB \<Rightarrow> memWbValue (memWb cpu)
      | FROM_REG \<Rightarrow> latched)"

definition aluInput1 :: "Processor \<Rightarrow> bool \<Rightarrow> word32" where
  "aluInput1 cpu isForwarding =
     (if isForwarding then
        forwardedValue cpu (fst (detectForwarding (idEx cpu) (exMemEntered cpu) (memWb cpu)))
          (idex_readData1 (idEx cpu))
      else idex_readData1 (idEx cpu))"

definition aluInput2 :: "Processor \<Rightarrow> bool \<Rightarrow> word32" where
  "aluInput2 cpu isForwarding =
     (if isForwarding then
        (if aluSrc (idex_control (idEx cpu)) then idex_immediate (idEx cpu)
         else forwardedValue cpu
                (snd (detectForwarding (idEx cpu) (exMemEntered cpu) (memWb cpu)))
                (idex_readData2 (idEx cpu)))
      else if aluSrc (idex_control (idEx cpu)) then idex_immediate (idEx cpu)
      else idex_readData2 (idEx cpu))"

text \<open>The store data: under forwarding a store takes \<open>readData2\<close> from the source that
  \<open>forwardB\<close> names.\<close>

definition storeData :: "Processor \<Rightarrow> bool \<Rightarrow> word32" where
  "storeData cpu isForwarding =
     (if isForwarding \<and> memWrite (idex_control (idEx cpu)) then
        forwardedValue cpu (snd (detectForwarding (idEx cpu) (exMemEntered cpu) (memWb cpu)))
          (idex_readData2 (idEx cpu))
      else idex_readData2 (idEx cpu))"

text \<open>The \<open>switch\<close> over the opcode. Signed \<open>+\<close> and \<open>-\<close> are modelled as two's-complement
  wrap-around, shifts take the low five bits of the second operand.\<close>

definition aluCompute :: "Opcode \<Rightarrow> word32 \<Rightarrow> word32 \<Rightarrow> word32 \<Rightarrow> word32 \<Rightarrow> word32" where
  "aluCompute opc a b pcv imm =
     (if opc \<in> {ADD, ADDI, LB, LH, LW, LBU, LHU, SB, SH, SW, JALR} then a + b
      else if opc = SUB then a - b
      else if opc \<in> {AND_op, ANDI} then a AND b
      else if opc \<in> {OR_op, ORI} then a OR b
      else if opc \<in> {XOR_op, XORI} then a XOR b
      else if opc \<in> {SLL, SLLI} then push_bit (unat (b AND 0x1F)) a
      else if opc \<in> {SRL, SRLI} then drop_bit (unat (b AND 0x1F)) a
      else if opc \<in> {SRA, SRAI} then signed_drop_bit (unat (b AND 0x1F)) a
      else if opc \<in> {SLT, SLTI, BLT, BGE} then (if sint a < sint b then 1 else 0)
      else if opc \<in> {SLTU, SLTIU, BLTU, BGEU} then (if uint a < uint b then 1 else 0)
      else if opc = BEQ then (if a = b then 1 else 0)
      else if opc = BNE then (if a \<noteq> b then 1 else 0)
      else if opc = JAL then pcv + 4
      else if opc = LUI then imm
      else if opc = AUIPC then pcv + imm
      else 0)"

definition executeStage :: "Processor \<Rightarrow> bool \<Rightarrow> Processor" where
  "executeStage cpu isForwarding =
     (if \<not> idex_valid (idEx cpu) then cpu\<lparr>exMem := (exMem cpu)\<lparr>exmem_valid := False\<rparr>\<rparr>
      else
        let res = aluCompute (opcode (idex_instruction (idEx cpu)))
                    (aluInput1 cpu isForwarding) (aluInput2 cpu isForwarding)
                    (idex_pc (idEx cpu)) (idex_immediate (idEx cpu))
        in cpu\<lparr>exMem := (exMemEntered cpu)
                 \<lparr>exmem_readData2 := storeData cpu isForwarding,
                  exmem_instruction := idex_instruction (idEx cpu),
                  exmem_aluResult := (exmem_aluResult (exMem cpu))
                     \<lparr>result := res, zero := (res = 0), negative := (sint res < 0)\<rparr>,
                  exmem_valid := True\<rparr>\<rparr>)"

subsection \<open>Memory\<close>

text \<open>The load arm: width and extension by opcode. \<open>None\<close> is the undefined vector access
  of \<open>DataMemory::read\<close>.\<close>

definition loadValue :: "8 word list \<Rightarrow> Opcode \<Rightarrow> word32 \<Rightarrow> word32 option" where
  "loadValue memory opc address =
     (if opc = LB then
        map_option (\<lambda>v. if v AND 0x80 \<noteq> 0 then v OR 0xFFFFFF00 else v)
          (DataMemory_read memory address 1)
      else if opc = LH then
        map_option (\<lambda>v. if v AND 0x8000 \<noteq> 0 then v OR 0xFFFF0000 else v)
          (DataMemory_read memory address 2)
      else if opc = LW then DataMemory_read memory address 4
      else if opc = LBU then map_option (\<lambda>v. v AND 0xFF) (DataMemory_read memory address 1)
      else if opc = LHU then map_option (\<lambda>v. v AND 0xFFFF) (DataMemory_read memory address 2)
      else Some 0)"

definition storeValue :: "8 word list \<Rightarrow> Opcode \<Rightarrow> word32 \<Rightarrow> word32 \<Rightarrow> 8 word list option" where
  "storeValue memory opc address v =
     (if opc = SB then DataMemory_write memory address v 1
      else if opc = SH then DataMemory_write memory address v 2
      else if opc = SW then DataMemory_write memory address v 4
      else Some memory)"

definition memoryStage :: "Processor \<Rightarrow> Processor option" where
  "memoryStage cpu =
     (let ex = exMem cpu; address = result (exmem_aluResult ex) in
      if \<not> exmem_valid ex then Some (cpu\<lparr>memWb := (memWb cpu)\<lparr>memwb_valid := False\<rparr>\<rparr>)
      else
        case (if memRead (exmem_control ex)
              then loadValue (dataMem cpu) (opcode (exmem_instruction ex)) address
              else Some 0) of
          None \<Rightarrow> None
        | Some readData \<Rightarrow>
            (case (if memWrite (exmem_control ex)
                   then storeValue (dataMem cpu) (opcode (exmem_instruction ex)) address
                          (exmem_readData2 ex)
                   else Some (dataMem cpu)) of
               None \<Rightarrow> None
             | Some memory' \<Rightarrow>
                 Some (cpu\<lparr>dataMem := memory',
                           memWb := \<lparr>memwb_pc = exmem_pc ex,
                                     memwb_instruction = exmem_instruction ex,
                                     memwb_aluResult = address,
                                     memwb_readData = readData,
                                     memwb_control = exmem_control ex,
                                     memwb_valid = True\<rparr>\<rparr>)))"

subsection \<open>Writeback\<close>

definition writeBackStage :: "Processor \<Rightarrow> Processor" where
  "writeBackStage cpu =
     (if \<not> memwb_valid (memWb cpu) then cpu
      else
        let regs = (if regWrite (memwb_control (memWb cpu))
                       \<and> rd (memwb_instruction (memWb cpu)) \<noteq> 0
                    then RegisterFile_write (regFile cpu) (rd (memwb_instruction (memWb cpu)))
                           (memWbValue (memWb cpu))
                    else regFile cpu)
        in cpu\<lparr>regFile := regs, instructionsExecuted := instructionsExecuted cpu + 1\<rparr>)"

section \<open>The pipeline driver\<close>

text \<open>The second redirect test of the driver, on the EX/MEM register.\<close>

definition exMemRedirect :: "Processor \<Rightarrow> bool" where
  "exMemRedirect cpu \<longleftrightarrow>
     exmem_valid (exMem cpu)
     \<and> ((branch (exmem_control (exMem cpu)) \<and> exmem_branchTaken (exMem cpu))
        \<or> jump (exmem_control (exMem cpu)))"

text \<open>
  One iteration of the loop of \<open>executePipeline\<close>. The stages run in the order
  writeback, memory, execute, decode, fetch on the same processor object, so each stage
  finds the registers as the stages before it in that order have left them:
  \<open>executeInput\<close> is the processor as the execute stage finds it, \<open>decodeInput\<close> the
  processor as the decode stage finds it. \<open>cycleDecodeRedirect\<close> is the iteration up to
  and including the redirect that the decode stage asks for, \<open>cycle\<close> the whole iteration.
\<close>

definition executeInput :: "Processor \<Rightarrow> Processor option" where
  "executeInput cpu = memoryStage (writeBackStage (cpu\<lparr>clockCycle := clockCycle cpu + 1\<rparr>))"

definition decodeInput :: "bool \<Rightarrow> Processor \<Rightarrow> Processor option" where
  "decodeInput isForwarding cpu =
     map_option (\<lambda>cpu2. executeStage cpu2 isForwarding) (executeInput cpu)"

definition cycleDecodeRedirect :: "bool \<Rightarrow> Processor \<Rightarrow> Processor option" where
  "cycleDecodeRedirect isForwarding cpu =
     (case decodeInput isForwarding cpu of
        None \<Rightarrow> None
      | Some cpu3 \<Rightarrow>
          (let (cpu4, stall, branchTaken, branchTarget) =
                  instructionDecodeStage cpu3 False isForwarding;
               (cpu5, stall') = instructionFetchStage cpu4 stall isForwarding
           in Some (if branchTaken
                    then cpu5\<lparr>pc := branchTarget, ifId := (ifId cpu5)\<lparr>ifid_valid := False\<rparr>\<rparr>
                    else cpu5)))"

definition cycle :: "bool \<Rightarrow> Processor \<Rightarrow> Processor option" where
  "cycle isForwarding cpu =
     (case cycleDecodeRedirect isForwarding cpu of
        None \<Rightarrow> None
      | Some cpu6 \<Rightarrow>
          Some (if exMemRedirect cpu6
                then cpu6\<lparr>pc := exmem_branchTarget (exMem cpu6),
                          ifId := (ifId cpu6)\<lparr>ifid_valid := False\<rparr>\<rparr>
                else cpu6))"

fun cycles :: "nat \<Rightarrow> bool \<Rightarrow> Processor \<Rightarrow> Processor option" where
  "cycles 0 isForwarding cpu = Some cpu"
| "cycles (Suc n) isForwarding cpu =
     (case cycle isForwarding cpu of None \<Rightarrow> None | Some cpu' \<Rightarrow> cycles n isForwarding cpu')"

text \<open>\<open>Processor::reset\<close> and the part of \<open>executePipeline\<close> before the loop: the trace
  list is rebuilt with one entry per word of the instruction memory.\<close>

definition reset :: "Processor \<Rightarrow> Processor" where
  "reset cpu = cpu\<lparr>pc := 0, clockCycle := 0, instructionsExecuted := 0,
      ifId := IF_ID_Register_new, idEx := ID_EX_Register_new,
      exMem := EX_MEM_Register_new, memWb := MEM_WB_Register_new\<rparr>"

definition startPipeline :: "Processor \<Rightarrow> Processor" where
  "startPipeline cpu =
     (let cpu' = reset (cpu\<lparr>instructionTraces := []\<rparr>) in
      cpu'\<lparr>instructionTraces :=
              fold (\<lambda>i traces. initInstructionTrace traces (word_of_nat (i * 4)))
                [0..<length (instMem cpu)] [],
            pc := 0\<rparr>)"

definition executePipeline :: "Processor \<Rightarrow> int \<Rightarrow> bool \<Rightarrow> Processor option" where
  "executePipeline cpu n isForwarding = cycles (nat n) isForwarding (startPipeline cpu)"

text \<open>The processor that \<open>main\<close> builds: a fresh \<open>Processor\<close> whose instruction memory
  holds the program image; \<open>loadData\<close> additionally presets the data memory.\<close>

definition loadProgram :: "word32 list \<Rightarrow> Processor" where
  "loadProgram prog = Processor_new\<lparr>instMem := prog\<rparr>"

definition loadData :: "word32 list \<Rightarrow> 8 word list \<Rightarrow> Processor" where
  "loadData prog bytes = Processor_new\<lparr>instMem := prog, dataMem := bytes\<rparr>"

section \<open>Definitions used by the properties\<close>



text \<open>
  Operand selection in the words of the specification, for the source register \<open>r\<close> and
  the value \<open>latched\<close> at decode time: EX/MEM's ALU result if EX/MEM holds a valid
  instruction with registerWrite set and a non-zero destination equal to \<open>r\<close>; else
  MEM/WB's committed value under the same test on MEM/WB; else the latched value.
\<close>

definition spec_forwardOperand :: "Processor \<Rightarrow> int \<Rightarrow> word32 \<Rightarrow> word32" where
  "spec_forwardOperand cpu r latched =
     (if exmem_valid (exMem cpu) \<and> regWrite (exmem_control (exMem cpu))
         \<and> rd (exmem_instruction (exMem cpu)) \<noteq> 0 \<and> rd (exmem_instruction (exMem cpu)) = r
      then result (exmem_aluResult (exMem cpu))
      else if memwb_valid (memWb cpu) \<and> regWrite (memwb_control (memWb cpu))
         \<and> rd (memwb_instruction (memWb cpu)) \<noteq> 0 \<and> rd (memwb_instruction (memWb cpu)) = r
      then memWbValue (memWb cpu)
      else latched)"

text \<open>The state of the EX/MEM branch fields and of the jump signal that the driver's second
  redirect test reads.\<close>

definition branchFieldsDormant :: "Processor \<Rightarrow> bool" where
  "branchFieldsDormant cpu \<longleftrightarrow>
     \<not> jump (idex_control (idEx cpu)) \<and> \<not> jump (exmem_control (exMem cpu))
     \<and> \<not> exmem_branchTaken (exMem cpu) \<and> exmem_branchTarget (exMem cpu) = 0"

text \<open>A drained pipeline: four bubbles and a program counter without a trace entry.\<close>

definition drained :: "Processor \<Rightarrow> bool" where
  "drained cpu \<longleftrightarrow>
     \<not> ifid_valid (ifId cpu) \<and> \<not> idex_valid (idEx cpu) \<and> \<not> exmem_valid (exMem cpu)
     \<and> \<not> memwb_valid (memWb cpu) \<and> pc cpu \<notin> set (instructionTraces cpu)"

subsection \<open>Example programs and processor states\<close>

text \<open>\<open>addi x1,x0,5; addi x2,x0,10; add x3,x1,x2\<close>\<close>

definition sumProgram :: "word32 list" where
  "sumProgram = [0x00500093, 0x00A00113, 0x002081B3]"

text \<open>\<open>addi x1,x0,1; jalr x1,8(x0)\<close>\<close>

definition jalrProgram :: "word32 list" where
  "jalrProgram = [0x00100093, 0x008000E7]"

text \<open>The processor as the decode stage finds it in the third cycle of \<open>jalrProgram\<close>,
  with the \<open>jalr\<close> fetched from address 4 in IF/ID.\<close>

definition jalrExample :: Processor where
  "jalrExample =
     the (Option.bind (executePipeline (loadProgram jalrProgram) 2 True) (decodeInput True))"

text \<open>\<open>addi x1,x0,5\<close> alone, and followed by the word \<open>0x020000B3\<close> (opcode field
  \<open>0x33\<close>, funct7 \<open>0x01\<close>, rd \<open>1\<close>), which matches no case of the decoder.\<close>

definition addiProgram :: "word32 list" where
  "addiProgram = [0x00500093]"

definition undefinedWordProgram :: "word32 list" where
  "undefinedWordProgram = [0x00500093, 0x020000B3]"



text \<open>\<open>addi x1,x0,5; sw x0,100(x0); add x3,x1,x0\<close>, and the processor as the execute
  stage finds it in the fifth cycle: the \<open>add\<close> in ID/EX, the store in EX/MEM and in
  MEM/WB.\<close>

definition storeThenAdd :: "word32 list" where
  "storeThenAdd = [0x00500093, 0x06002223, 0x000081B3]"

definition forwardExample :: Processor where
  "forwardExample =
     the (Option.bind (executePipeline (loadProgram storeThenAdd) 4 True) executeInput)"

text \<open>A processor whose IF/ID holds \<open>blt x1,x2,+16\<close> fetched from address 8, with
  \<open>x1 = -1\<close> and \<open>x2 = 1\<close>; and the same with \<open>bltu x1,x2,+16\<close>.\<close>

definition bltExample :: Processor where
  "bltExample = Processor_new\<lparr>
     regFile := (replicate 32 0)[1 := -1, 2 := 1],
     ifId := \<lparr>ifid_pc = 8, ifid_instruction = decodeInstruction 0x0020C863 Instruction_new,
              ifid_valid = True\<rparr>\<rparr>"

definition bltuExample :: Processor where
  "bltuExample = bltExample\<lparr>
     ifId := \<lparr>ifid_pc = 8, ifid_instruction = decodeInstruction 0x0020E863 Instruction_new,
              ifid_valid = True\<rparr>\<rparr>"

section \<open>How each stage treats the parts of the processor it does not own\<close>

lemma regFile_memoryStage: "memoryStage cpu = Some cpu' \<Longrightarrow> regFile cpu' = regFile cpu"
  by (auto simp: memoryStage_def Let_def split: if_splits option.splits)

lemma regFile_executeStage: "regFile (executeStage cpu fw) = regFile cpu"
  by (simp add: executeStage_def Let_def)

lemma regFile_instructionDecodeStage:
  "regFile (fst (instructionDecodeStage cpu stall fw)) = regFile cpu"
  by (simp add: instructionDecodeStage_def Let_def case_prod_beta)

lemma regFile_instructionFetchStage:
  "regFile (fst (instructionFetchStage cpu stall fw)) = regFile cpu"
  by (simp add: instructionFetchStage_def Let_def)

lemma exMem_instructionDecodeStage:
  "exMem (fst (instructionDecodeStage cpu stall fw)) = exMem cpu"
  by (simp add: instructionDecodeStage_def Let_def case_prod_beta)

text \<open>The end of an iteration differs from the result of the fetch stage at most in the
  program counter and the validity of IF/ID.\<close>

lemma cycleDecodeRedirect_shape:
  assumes "cycleDecodeRedirect fw cpu = Some cpu'"
  obtains cpu3 t v where "decodeInput fw cpu = Some cpu3"
    and "cpu' = (fst (instructionFetchStage (fst (instructionDecodeStage cpu3 False fw))
                   (fst (snd (instructionDecodeStage cpu3 False fw))) fw))
                \<lparr>pc := t, ifId := v\<rparr>"
proof -
  obtain cpu3 where d: "decodeInput fw cpu = Some cpu3"
    using assms by (auto simp: cycleDecodeRedirect_def split: option.splits)
  let ?f = "fst (instructionFetchStage (fst (instructionDecodeStage cpu3 False fw))
                   (fst (snd (instructionDecodeStage cpu3 False fw))) fw)"
  have "cpu' = ?f \<or> (\<exists>t v. cpu' = ?f\<lparr>pc := t, ifId := v\<rparr>)"
    using assms d by (auto simp: cycleDecodeRedirect_def Let_def case_prod_beta split: if_splits)
  moreover have "?f = ?f\<lparr>pc := pc ?f, ifId := ifId ?f\<rparr>" by simp
  ultimately obtain t v where "cpu' = ?f\<lparr>pc := t, ifId := v\<rparr>" by metis
  with d that show thesis by blast
qed

lemma decodeInput_shape:
  assumes "decodeInput fw cpu = Some cpu3"
  obtains cpu2 where
    "memoryStage (writeBackStage (cpu\<lparr>clockCycle := clockCycle cpu + 1\<rparr>)) = Some cpu2"
    and "cpu3 = executeStage cpu2 fw"
  using assms by (auto simp: decodeInput_def executeInput_def)

section \<open>Register 0\<close>

lemma RegisterFile_write_nth0: "RegisterFile_write regs r v ! 0 = regs ! 0"
  by (simp add: RegisterFile_write_def)

lemma regFile_writeBackStage_nth0: "regFile (writeBackStage cpu) ! 0 = regFile cpu ! 0"
  by (simp add: writeBackStage_def Let_def RegisterFile_write_nth0)

lemma regFile_cycleDecodeRedirect:
  assumes "cycleDecodeRedirect fw cpu = Some cpu'"
  shows "regFile cpu' ! 0 = regFile cpu ! 0"
proof -
  from assms obtain cpu3 t v where d: "decodeInput fw cpu = Some cpu3"
    and c: "cpu' = (fst (instructionFetchStage (fst (instructionDecodeStage cpu3 False fw))
                   (fst (snd (instructionDecodeStage cpu3 False fw))) fw))
                \<lparr>pc := t, ifId := v\<rparr>"
    by (rule cycleDecodeRedirect_shape)
  from d obtain cpu2 where
    m: "memoryStage (writeBackStage (cpu\<lparr>clockCycle := clockCycle cpu + 1\<rparr>)) = Some cpu2"
    and e: "cpu3 = executeStage cpu2 fw"
    by (rule decodeInput_shape)
  have "regFile cpu2 ! 0 = regFile cpu ! 0"
    using regFile_memoryStage[OF m] by (simp add: regFile_writeBackStage_nth0)
  moreover have "regFile cpu' = regFile cpu2"
    by (simp add: c e regFile_instructionFetchStage regFile_instructionDecodeStage
        regFile_executeStage)
  ultimately show ?thesis by simp
qed

lemma regFile_cycle:
  assumes "cycle fw cpu = Some cpu'"
  shows "regFile cpu' ! 0 = regFile cpu ! 0"
  using assms regFile_cycleDecodeRedirect[of fw cpu]
  by (auto simp: cycle_def split: option.splits if_splits)

lemma regFile_cycles:
  "cycles n fw cpu = Some cpu' \<Longrightarrow> regFile cpu' ! 0 = regFile cpu ! 0"
proof (induction n arbitrary: cpu)
  case 0
  then show ?case by simp
next
  case (Suc n)
  then show ?case
    by (auto split: option.splits dest: regFile_cycle)
qed

lemma regFile_startPipeline: "regFile (startPipeline (loadData prog bytes)) ! 0 = 0"
  by (simp add: startPipeline_def reset_def loadData_def Processor_new_def Let_def)

text \<open>
  C9. In every state that \<open>executePipeline\<close> reaches, for every program image, every preset
  of the data memory, either forwarding mode and every number of cycles, slot 0 of the
  register file holds 0, reading register 0 yields 0, and a write that targets register 0
  leaves the register file as it is.
\<close>

theorem register_zero_invariant:
  assumes "executePipeline (loadData prog bytes) n fw = Some cpu"
  shows "regFile cpu ! 0 = 0 \<and> RegisterFile_read (regFile cpu) 0 = 0
         \<and> RegisterFile_write (regFile cpu) 0 v = regFile cpu"
  using regFile_cycles[OF assms[unfolded executePipeline_def]]
  by (simp add: regFile_startPipeline RegisterFile_read_def RegisterFile_write_def)

text \<open>The witness runs \<open>addi x0,x0,5\<close>, whose writeback targets register 0, for six
  cycles: the instruction retires and register 0 still reads 0.\<close>

theorem register_zero_invariant_witness:
  "\<exists>cpu. executePipeline (loadData [0x00500013] (replicate 1024 0)) 6 True = Some cpu
     \<and> instructionsExecuted cpu = 1
     \<and> regFile cpu ! 0 = 0 \<and> RegisterFile_read (regFile cpu) 0 = 0
     \<and> RegisterFile_write (regFile cpu) 0 7 = regFile cpu"
proof -
  let ?run = "executePipeline (loadData [0x00500013] (replicate 1024 0)) 6 True"
  have "?run \<noteq> None" by code_simp
  then obtain cpu where h: "?run = Some cpu" by auto
  have "instructionsExecuted (the ?run) = 1" by code_simp
  with register_zero_invariant[OF h, of 7] h show ?thesis by simp
qed

section \<open>The retired-instruction counter\<close>

text \<open>
  C10. The writeback stage increases the retired-instruction counter by exactly 1 when
  MEM/WB holds a valid entry and leaves it unchanged when MEM/WB holds a bubble, whatever
  the instruction and its control signals are.
\<close>

theorem writeBackStage_counts_valid:
  "instructionsExecuted (writeBackStage cpu)
     = instructionsExecuted cpu + (if memwb_valid (memWb cpu) then 1 else 0)"
  by (simp add: writeBackStage_def Let_def)

section \<open>The EX/MEM branch fields\<close>

lemma jump_setControlSignals:
  "jump (setControlSignals inst) \<longleftrightarrow>
     format inst = J_TYPE \<or> (format inst = I_TYPE \<and> opcode inst = JALR)"
  by (simp add: setControlSignals_def ControlSignals_new_def Let_def
      split: InstructionFormat.splits)

lemma resolveBranch_jump:
  "format (ifid_instruction ifid) = J_TYPE \<or> opcode (ifid_instruction ifid) = JALR
     \<Longrightarrow> fst (resolveBranch ifid a b)"
  by (auto simp: resolveBranch_def Let_def)

lemma dormant_writeBackStage:
  "branchFieldsDormant (writeBackStage cpu) = branchFieldsDormant cpu"
  by (simp add: writeBackStage_def branchFieldsDormant_def Let_def)

lemma dormant_memoryStage:
  "memoryStage cpu = Some cpu' \<Longrightarrow> branchFieldsDormant cpu' = branchFieldsDormant cpu"
  by (auto simp: memoryStage_def branchFieldsDormant_def Let_def split: if_splits option.splits)

lemma dormant_executeStage:
  "branchFieldsDormant cpu \<Longrightarrow> branchFieldsDormant (executeStage cpu fw)"
  by (simp add: executeStage_def branchFieldsDormant_def exMemEntered_def Let_def)

text \<open>Decode clears \<open>jump\<close> whenever it reports a taken jump, and it reports every
  unstalled JAL and JALR as taken: no \<open>jump\<close> signal ever enters ID/EX.\<close>

lemma jump_idEx_decode:
  assumes "\<not> jump (idex_control (idEx cpu))"
  shows "\<not> jump (idex_control (idEx (fst (instructionDecodeStage cpu stall fw))))"
proof -
  let ?inst = "ifid_instruction (ifId cpu)"
  show ?thesis
  proof (cases "jump (setControlSignals ?inst)")
    case False
    with assms show ?thesis
      by (simp add: instructionDecodeStage_def Let_def case_prod_beta)
  next
    case True
    then have j: "format ?inst = J_TYPE \<or> (format ?inst = I_TYPE \<and> opcode ?inst = JALR)"
      by (simp add: jump_setControlSignals)
    then have b: "isBranchOrJump ?inst" by (auto simp: isBranchOrJump_def)
    from j have "fst (resolveBranch (ifId cpu) a b)" for a b
      by (intro resolveBranch_jump) auto
    with assms b show ?thesis
      by (simp add: instructionDecodeStage_def Let_def case_prod_beta)
  qed
qed

lemma dormant_instructionDecodeStage:
  "branchFieldsDormant cpu \<Longrightarrow> branchFieldsDormant (fst (instructionDecodeStage cpu stall fw))"
  using jump_idEx_decode[of cpu stall fw]
  by (simp add: branchFieldsDormant_def exMem_instructionDecodeStage)

lemma dormant_instructionFetchStage:
  "branchFieldsDormant (fst (instructionFetchStage cpu stall fw)) = branchFieldsDormant cpu"
  by (simp add: instructionFetchStage_def branchFieldsDormant_def Let_def)

lemma dormant_cycleDecodeRedirect:
  assumes "cycleDecodeRedirect fw cpu = Some cpu'" and "branchFieldsDormant cpu"
  shows "branchFieldsDormant cpu'"
proof -
  from assms(1) obtain cpu3 t v where d: "decodeInput fw cpu = Some cpu3"
    and c: "cpu' = (fst (instructionFetchStage (fst (instructionDecodeStage cpu3 False fw))
                   (fst (snd (instructionDecodeStage cpu3 False fw))) fw))
                \<lparr>pc := t, ifId := v\<rparr>"
    by (rule cycleDecodeRedirect_shape)
  from d obtain cpu2 where
    m: "memoryStage (writeBackStage (cpu\<lparr>clockCycle := clockCycle cpu + 1\<rparr>)) = Some cpu2"
    and e: "cpu3 = executeStage cpu2 fw"
    by (rule decodeInput_shape)
  have "branchFieldsDormant (cpu\<lparr>clockCycle := clockCycle cpu + 1\<rparr>)"
    using assms(2) by (simp add: branchFieldsDormant_def)
  then have "branchFieldsDormant cpu2"
    using dormant_memoryStage[OF m] by (simp add: dormant_writeBackStage)
  then have "branchFieldsDormant (fst (instructionFetchStage
      (fst (instructionDecodeStage cpu3 False fw))
      (fst (snd (instructionDecodeStage cpu3 False fw))) fw))"
    by (simp add: e dormant_instructionFetchStage dormant_instructionDecodeStage
        dormant_executeStage)
  then show ?thesis by (simp add: c branchFieldsDormant_def)
qed

lemma dormant_no_redirect: "branchFieldsDormant cpu \<Longrightarrow> \<not> exMemRedirect cpu"
  by (simp add: branchFieldsDormant_def exMemRedirect_def)

lemma cycle_dormant:
  assumes "branchFieldsDormant cpu"
  shows "cycle fw cpu = cycleDecodeRedirect fw cpu"
proof (cases "cycleDecodeRedirect fw cpu")
  case None
  then show ?thesis by (simp add: cycle_def)
next
  case (Some cpu6)
  from dormant_no_redirect[OF dormant_cycleDecodeRedirect[OF Some assms]] Some
  show ?thesis by (simp add: cycle_def)
qed

lemma dormant_cycles:
  "cycles n fw cpu = Some cpu' \<Longrightarrow> branchFieldsDormant cpu \<Longrightarrow> branchFieldsDormant cpu'"
proof (induction n arbitrary: cpu)
  case 0
  then show ?case by simp
next
  case (Suc n)
  from Suc.prems(1) obtain c where c: "cycle fw cpu = Some c" and r: "cycles n fw c = Some cpu'"
    by (auto split: option.splits)
  from c have "cycleDecodeRedirect fw cpu = Some c"
    by (simp add: cycle_dormant[OF Suc.prems(2)])
  from Suc.IH[OF r dormant_cycleDecodeRedirect[OF this Suc.prems(2)]] show ?case .
qed

lemma dormant_startPipeline: "branchFieldsDormant (startPipeline cpu)"
  by (simp add: startPipeline_def reset_def branchFieldsDormant_def Let_def
      ID_EX_Register_new_def EX_MEM_Register_new_def ControlSignals_new_def)

text \<open>
  C6. In every state that \<open>executePipeline\<close> reaches, the \<open>branchTaken\<close> and \<open>branchTarget\<close>
  fields of EX/MEM still hold their reset values, the driver's redirect test on EX/MEM is
  false, and the next iteration of the driver is the iteration without that test: the
  redirect asked for by the decode stage is the only one that is ever applied.
\<close>

theorem exMem_branch_fields_unused:
  assumes "executePipeline (loadData prog bytes) n fw = Some cpu"
  shows "\<not> exmem_branchTaken (exMem cpu) \<and> exmem_branchTarget (exMem cpu) = 0
         \<and> \<not> exMemRedirect cpu \<and> cycle fw cpu = cycleDecodeRedirect fw cpu"
proof -
  have d: "branchFieldsDormant cpu"
    using dormant_cycles[OF assms[unfolded executePipeline_def] dormant_startPipeline] .
  then show ?thesis
    using dormant_no_redirect[OF d] cycle_dormant[OF d]
    by (simp add: branchFieldsDormant_def)
qed

text \<open>The witness runs \<open>jal x0,+8; addi x1,x0,5; addi x2,x0,10\<close> for three cycles, when
  the taken \<open>jal\<close> sits in EX/MEM as a valid entry.\<close>

theorem exMem_branch_fields_unused_witness:
  "\<exists>cpu. executePipeline (loadData [0x0080006F, 0x00500093, 0x00A00113] (replicate 1024 0)) 3 True
            = Some cpu
     \<and> exmem_valid (exMem cpu) \<and> opcode (exmem_instruction (exMem cpu)) = JAL
     \<and> \<not> exmem_branchTaken (exMem cpu) \<and> exmem_branchTarget (exMem cpu) = 0
     \<and> \<not> exMemRedirect cpu \<and> cycle True cpu = cycleDecodeRedirect True cpu"
proof -
  let ?run = "executePipeline (loadData [0x0080006F, 0x00500093, 0x00A00113]
                (replicate 1024 0)) 3 True"
  have "?run \<noteq> None" by code_simp
  then obtain cpu where h: "?run = Some cpu" by auto
  have "exmem_valid (exMem (the ?run)) \<and> opcode (exmem_instruction (exMem (the ?run))) = JAL"
    by code_simp
  with exMem_branch_fields_unused[OF h] h show ?thesis by auto
qed

section \<open>Branch resolution in the decode stage\<close>

text \<open>What an unstalled decode of a valid IF/ID entry reports to the driver.\<close>

lemma decode_unstalled:
  assumes "ifid_valid (ifId cpu)"
    and "instructionDecodeStage cpu stall fw = (cpu', False, taken, target)"
  shows "(taken, target) =
           (if isBranchOrJump (ifid_instruction (ifId cpu))
            then resolveBranch (ifId cpu)
                   (decodeOperand cpu fw (rs1 (ifid_instruction (ifId cpu))))
                   (decodeOperand cpu fw (rs2 (ifid_instruction (ifId cpu))))
            else (False, 0))"
  using assms
  by (simp add: instructionDecodeStage_def Let_def case_prod_beta split: if_splits)

text \<open>
  C7. When the decode stage resolves a conditional branch (a valid IF/ID entry of format B
  with one of the six branch opcodes, not stalled) on the operand values \<open>rs1Value\<close> and
  \<open>rs2Value\<close> it has selected, the branch is reported taken exactly when: BEQ, the values
  are equal; BNE, they differ; BLT, the first is less as a signed number; BGE, it is greater
  or equal as a signed number; BLTU and BGEU, the same on the unsigned numbers. A taken
  branch reports the target \<open>pc + immediate\<close> of the branch. On the pair \<open>-1\<close>, \<open>1\<close> the BLT
  condition holds and the BLTU condition does not.
\<close>

theorem branch_resolution:
  fixes cpu :: Processor and fw :: bool
  defines "inst \<equiv> ifid_instruction (ifId cpu)"
  defines "rs1Value \<equiv> decodeOperand cpu fw (rs1 inst)"
  defines "rs2Value \<equiv> decodeOperand cpu fw (rs2 inst)"
  assumes valid: "ifid_valid (ifId cpu)"
    and fmt: "format inst = B_TYPE"
    and opc: "opcode inst \<in> {BEQ, BNE, BLT, BGE, BLTU, BGEU}"
    and dec: "instructionDecodeStage cpu stall fw = (cpu', False, taken, target)"
  shows "(opcode inst = BEQ \<longrightarrow> (taken \<longleftrightarrow> rs1Value = rs2Value))
       \<and> (opcode inst = BNE \<longrightarrow> (taken \<longleftrightarrow> rs1Value \<noteq> rs2Value))
       \<and> (opcode inst = BLT \<longrightarrow> (taken \<longleftrightarrow> sint rs1Value < sint rs2Value))
       \<and> (opcode inst = BGE \<longrightarrow> (taken \<longleftrightarrow> sint rs1Value \<ge> sint rs2Value))
       \<and> (opcode inst = BLTU \<longrightarrow> (taken \<longleftrightarrow> uint rs1Value < uint rs2Value))
       \<and> (opcode inst = BGEU \<longrightarrow> (taken \<longleftrightarrow> uint rs1Value \<ge> uint rs2Value))
       \<and> (taken \<longrightarrow> target = ifid_pc (ifId cpu) + immediate inst)
       \<and> conditionMet BLT (- 1) 1 \<and> \<not> conditionMet BLTU (- 1) 1"
proof -
  have b: "isBranchOrJump inst" using fmt by (simp add: isBranchOrJump_def)
  have "(taken, target) = resolveBranch (ifId cpu) rs1Value rs2Value"
    using decode_unstalled[OF valid dec] b by (simp add: inst_def rs1Value_def rs2Value_def)
  then have r: "(taken, target) =
      (if conditionMet (opcode inst) rs1Value rs2Value
       then (True, ifid_pc (ifId cpu) + immediate inst) else (False, 0))"
    using fmt opc by (auto simp add: resolveBranch_def Let_def inst_def)
  have t: "taken \<longleftrightarrow> conditionMet (opcode inst) rs1Value rs2Value"
    using r by (simp split: if_splits)
  have tg: "taken \<longrightarrow> target = ifid_pc (ifId cpu) + immediate inst"
    using r by (simp split: if_splits)
  have c: "conditionMet BLT (- 1) 1 \<and> \<not> conditionMet BLTU (- 1) 1"
    by (simp add: conditionMet_def unsigned_minus_1_eq_mask mask_eq_exp_minus_1)
  have "(opcode inst = BEQ \<longrightarrow> (taken \<longleftrightarrow> rs1Value = rs2Value))
       \<and> (opcode inst = BNE \<longrightarrow> (taken \<longleftrightarrow> rs1Value \<noteq> rs2Value))
       \<and> (opcode inst = BLT \<longrightarrow> (taken \<longleftrightarrow> sint rs1Value < sint rs2Value))
       \<and> (opcode inst = BGE \<longrightarrow> (taken \<longleftrightarrow> sint rs1Value \<ge> sint rs2Value))
       \<and> (opcode inst = BLTU \<longrightarrow> (taken \<longleftrightarrow> uint rs1Value < uint rs2Value))
       \<and> (opcode inst = BGEU \<longrightarrow> (taken \<longleftrightarrow> uint rs1Value \<ge> uint rs2Value))"
    using t by (auto simp add: conditionMet_def)
  with tg c show ?thesis by blast
qed

text \<open>The witness decodes \<open>blt x1,x2,+16\<close> at address 8 with \<open>x1 = -1\<close> and
  \<open>x2 = 1\<close>: taken, target 24.\<close>

theorem branch_resolution_witness:
  "ifid_valid (ifId bltExample) \<and> format (ifid_instruction (ifId bltExample)) = B_TYPE
   \<and> opcode (ifid_instruction (ifId bltExample)) = BLT
   \<and> snd (instructionDecodeStage bltExample False False) = (False, True, 24)
   \<and> sint (decodeOperand bltExample False (rs1 (ifid_instruction (ifId bltExample))))
        < sint (decodeOperand bltExample False (rs2 (ifid_instruction (ifId bltExample))))
   \<and> 24 = ifid_pc (ifId bltExample) + immediate (ifid_instruction (ifId bltExample))"
proof -
  have v: "ifid_valid (ifId bltExample)" by code_simp
  have f: "format (ifid_instruction (ifId bltExample)) = B_TYPE" by code_simp
  have o: "opcode (ifid_instruction (ifId bltExample)) = BLT" by code_simp
  have d: "snd (instructionDecodeStage bltExample False False) = (False, True, 24)"
    by code_simp
  then have e: "instructionDecodeStage bltExample False False
      = (fst (instructionDecodeStage bltExample False False), False, True, 24)"
    by (metis prod.collapse)
  have m: "opcode (ifid_instruction (ifId bltExample)) \<in> {BEQ, BNE, BLT, BGE, BLTU, BGEU}"
    using o by simp
  from branch_resolution[OF v f m e] o v f d show ?thesis by simp
qed

text \<open>The same operands under \<open>bltu\<close>: not taken.\<close>

lemma bltu_not_taken:
  "snd (instructionDecodeStage bltuExample False False) = (False, False, 0)"
  by code_simp

section \<open>Fetching beyond the end of the instruction memory\<close>


lemma decodeInstruction_zero: "opcode (decodeInstruction 0 inst) = INVALID"
  by (simp add: decodeInstruction_def)

text \<open>
  C8. When the program counter lies beyond the end of the instruction memory,
  \<open>readInstruction\<close> returns the all-zero word, and that word decodes to an INVALID
  instruction whatever the instruction object held before. The fetch stage returns
  normally, leaves registers and data memory alone, and, unless it was told to stall,
  leaves IF/ID either as a bubble or holding an INVALID instruction.
\<close>

theorem fetch_beyond_end:
  assumes "length (instMem cpu) \<le> unat (pc cpu) div 4"
  shows "readInstruction (instMem cpu) (pc cpu) = 0
       \<and> opcode (decodeInstruction (readInstruction (instMem cpu) (pc cpu)) inst) = INVALID
       \<and> regFile (fst (instructionFetchStage cpu stall fw)) = regFile cpu
       \<and> dataMem (fst (instructionFetchStage cpu stall fw)) = dataMem cpu
       \<and> (stall \<or> \<not> ifid_valid (ifId (fst (instructionFetchStage cpu stall fw)))
            \<or> opcode (ifid_instruction (ifId (fst (instructionFetchStage cpu stall fw)))) = INVALID)"
proof -
  have z: "readInstruction (instMem cpu) (pc cpu) = 0"
    using assms by (simp add: readInstruction_def)
  then show ?thesis
    by (simp add: decodeInstruction_zero instructionFetchStage_def Let_def)
qed

text \<open>The witness is \<open>sumProgram\<close> after three cycles, when all three words have been
  fetched and the program counter is 12.\<close>

theorem fetch_beyond_end_witness:
  "\<exists>cpu. executePipeline (loadProgram sumProgram) 3 True = Some cpu
     \<and> pc cpu = 12 \<and> length (instMem cpu) \<le> unat (pc cpu) div 4
     \<and> readInstruction (instMem cpu) (pc cpu) = 0
     \<and> opcode (decodeInstruction (readInstruction (instMem cpu) (pc cpu)) Instruction_new)
           = INVALID
     \<and> \<not> ifid_valid (ifId (fst (instructionFetchStage cpu False True)))"
proof -
  let ?run = "executePipeline (loadProgram sumProgram) 3 True"
  have "?run \<noteq> None" by code_simp
  then obtain cpu where h: "?run = Some cpu" by auto
  have "pc (the ?run) = 12 \<and> length (instMem (the ?run)) \<le> unat (pc (the ?run)) div 4
        \<and> \<not> ifid_valid (ifId (fst (instructionFetchStage (the ?run) False True)))"
    by code_simp
  with h have p: "pc cpu = 12" and l: "length (instMem cpu) \<le> unat (pc cpu) div 4"
    and b: "\<not> ifid_valid (ifId (fst (instructionFetchStage cpu False True)))"
    by auto
  from fetch_beyond_end[OF l, of Instruction_new False True] h p l b show ?thesis by auto
qed

section \<open>The decode-stage stall under forwarding\<close>







section \<open>Runs of whole programs\<close>

text \<open>Once the pipeline is drained, a cycle only advances the clock.\<close>

lemma drained_cycle:
  assumes "drained cpu"
  shows "cycle fw cpu = Some (cpu\<lparr>clockCycle := clockCycle cpu + 1\<rparr>)"
  using assms
  by (simp add: drained_def cycle_def cycleDecodeRedirect_def decodeInput_def executeInput_def
      writeBackStage_def memoryStage_def executeStage_def instructionDecodeStage_def
      instructionFetchStage_def exMemRedirect_def Let_def)

lemma cycles_drained:
  "drained cpu \<Longrightarrow> cycles k fw cpu = Some (cpu\<lparr>clockCycle := clockCycle cpu + int k\<rparr>)"
proof (induction k arbitrary: cpu)
  case 0
  then show ?case by simp
next
  case (Suc k)
  have "drained (cpu\<lparr>clockCycle := clockCycle cpu + 1\<rparr>)"
    using Suc.prems by (simp add: drained_def)
  from Suc.IH[OF this] show ?case
    by (simp add: drained_cycle[OF Suc.prems] add.assoc)
qed

lemma cycles_add:
  "cycles (m + k) fw cpu = Option.bind (cycles m fw cpu) (cycles k fw)"
  by (induction m arbitrary: cpu) (auto split: option.splits)

text \<open>A run that is drained after \<open>m\<close> cycles keeps its register file for every
  larger number of cycles.\<close>

lemma run_beyond_drain:
  assumes "cycles m fw (startPipeline cpu) \<noteq> None"
    and "drained (the (cycles m fw (startPipeline cpu)))"
  shows "map_option (\<lambda>c. g (regFile c)) (executePipeline cpu (int (m + k)) fw)
         = Some (g (regFile (the (cycles m fw (startPipeline cpu)))))"
proof -
  from assms(1) obtain s where s: "cycles m fw (startPipeline cpu) = Some s" by auto
  with assms(2) have "drained s" by simp
  from cycles_drained[OF this] s show ?thesis
    unfolding executePipeline_def nat_int cycles_add by simp
qed

text \<open>
  C1 fails on the code. The program \<open>addi x1,x0,5; addi x2,x0,10; add x3,x1,x2\<close>, run
  for nine or more cycles (both runs are drained after nine), ends with \<open>x3 = 10\<close> when
  forwarding is enabled and with \<open>x3 = 15\<close> when it is disabled.
\<close>

theorem forwarding_changes_result:
  "map_option (\<lambda>c. take 4 (regFile c)) (executePipeline (loadProgram sumProgram) (int (9 + k)) True)
     = Some [0, 5, 10, 10]
   \<and> map_option (\<lambda>c. take 4 (regFile c)) (executePipeline (loadProgram sumProgram) (int (9 + k)) False)
     = Some [0, 5, 10, 15]"
proof -
  let ?s = "\<lambda>fw. cycles 9 fw (startPipeline (loadProgram sumProgram))"
  have t: "?s True \<noteq> None" "drained (the (?s True))"
    and tv: "take 4 (regFile (the (?s True))) = [0, 5, 10, 10]"
    by code_simp+
  have f: "?s False \<noteq> None" "drained (the (?s False))"
    and fv: "take 4 (regFile (the (?s False))) = [0, 5, 10, 15]"
    by code_simp+
  show ?thesis
    using run_beyond_drain[OF t, where g = "take 4" and k = k]
      run_beyond_drain[OF f, where g = "take 4" and k = k]
    by (simp only: tv fv)
qed

subsection \<open>Jumps\<close>

text \<open>An unstalled JAL or JALR with a valid IF/ID entry is always reported taken.\<close>

lemma jump_resolution:
  assumes "ifid_valid (ifId cpu)"
    and "format (ifid_instruction (ifId cpu)) = J_TYPE
         \<or> (format (ifid_instruction (ifId cpu)) = I_TYPE
             \<and> opcode (ifid_instruction (ifId cpu)) = JALR)"
    and "instructionDecodeStage cpu stall fw = (cpu', False, taken, target)"
  shows "taken
       \<and> target = (if format (ifid_instruction (ifId cpu)) = J_TYPE
                   then ifid_pc (ifId cpu) + immediate (ifid_instruction (ifId cpu))
                   else (decodeOperand cpu fw (rs1 (ifid_instruction (ifId cpu)))
                          + immediate (ifid_instruction (ifId cpu))) AND NOT 1)"
proof -
  have b: "isBranchOrJump (ifid_instruction (ifId cpu))"
    using assms(2) by (auto simp: isBranchOrJump_def)
  from decode_unstalled[OF assms(1,3)] b assms(2) show ?thesis
    by (auto simp: resolveBranch_def Let_def)
qed

text \<open>The value the execute stage computes for the destination register: \<open>pc + 4\<close> for
  JAL, the sum of the two ALU inputs for JALR (which shares the arm of ADD).\<close>

lemma jal_link_value:
  assumes "idex_valid (idEx cpu)" and "opcode (idex_instruction (idEx cpu)) = JAL"
  shows "result (exmem_aluResult (exMem (executeStage cpu fw))) = idex_pc (idEx cpu) + 4"
  using assms by (simp add: executeStage_def aluCompute_def Let_def)

lemma jalr_link_value:
  assumes "idex_valid (idEx cpu)" and "opcode (idex_instruction (idEx cpu)) = JALR"
  shows "result (exmem_aluResult (exMem (executeStage cpu fw)))
         = aluInput1 cpu fw + aluInput2 cpu fw"
  using assms by (simp add: executeStage_def aluCompute_def Let_def)

text \<open>
  C2 fails on the code for JALR. In \<open>addi x1,x0,1; jalr x1,8(x0)\<close> the \<open>jalr\<close> at address 4
  reaches Decode with a valid IF/ID entry, is not stalled and is reported taken with target
  8; the value committed to \<open>x1\<close> is 0 in either forwarding mode, where the address of the
  following instruction is 8.
\<close>

theorem jalr_return_address:
  "ifid_valid (ifId jalrExample) \<and> opcode (ifid_instruction (ifId jalrExample)) = JALR
   \<and> ifid_pc (ifId jalrExample) = 4 \<and> rd (ifid_instruction (ifId jalrExample)) = 1
   \<and> snd (instructionDecodeStage jalrExample False True) = (False, True, 8)
   \<and> map_option (\<lambda>c. regFile c ! 1) (executePipeline (loadProgram jalrProgram) (int (6 + k)) True)
       = Some 0
   \<and> map_option (\<lambda>c. regFile c ! 1) (executePipeline (loadProgram jalrProgram) (int (6 + k)) False)
       = Some 0"
proof -
  let ?s = "\<lambda>fw. cycles 6 fw (startPipeline (loadProgram jalrProgram))"
  have d: "ifid_valid (ifId jalrExample) \<and> opcode (ifid_instruction (ifId jalrExample)) = JALR
   \<and> ifid_pc (ifId jalrExample) = 4 \<and> rd (ifid_instruction (ifId jalrExample)) = 1
   \<and> snd (instructionDecodeStage jalrExample False True) = (False, True, 8)"
    by code_simp
  have t: "?s True \<noteq> None" "drained (the (?s True))"
    and tv: "regFile (the (?s True)) ! 1 = 0"
    by code_simp+
  have f: "?s False \<noteq> None" "drained (the (?s False))"
    and fv: "regFile (the (?s False)) ! 1 = 0"
    by code_simp+
  show ?thesis
    using d run_beyond_drain[OF t, where g = "\<lambda>r. r ! 1" and k = k]
      run_beyond_drain[OF f, where g = "\<lambda>r. r ! 1" and k = k]
    by (simp only: tv fv)
qed

subsection \<open>Words that match no case of the decoder\<close>

text \<open>The memory stage neither reads nor writes data memory for an INVALID instruction,
  and it returns normally.\<close>

lemma invalid_memoryStage:
  assumes "opcode (exmem_instruction (exMem cpu)) = INVALID"
  shows "\<exists>cpu'. memoryStage cpu = Some cpu' \<and> dataMem cpu' = dataMem cpu"
  using assms by (simp add: memoryStage_def loadValue_def storeValue_def Let_def)

text \<open>
  C3 fails on the code. The word \<open>0x020000B3\<close> decodes to INVALID, yet the control unit
  sets registerWrite for it, and appending it to \<open>addi x1,x0,5\<close> changes the final value of
  \<open>x1\<close> from 5 to 0 in either forwarding mode.
\<close>

theorem undefined_word_writes_register:
  "opcode (decodeInstruction 0x020000B3 inst) = INVALID
   \<and> regWrite (setControlSignals (decodeInstruction 0x020000B3 inst))
   \<and> map_option (\<lambda>c. regFile c ! 1) (executePipeline (loadProgram addiProgram) (int (7 + k)) True)
       = Some 5
   \<and> map_option (\<lambda>c. regFile c ! 1)
        (executePipeline (loadProgram undefinedWordProgram) (int (7 + k)) True) = Some 0
   \<and> map_option (\<lambda>c. regFile c ! 1) (executePipeline (loadProgram addiProgram) (int (7 + k)) False)
       = Some 5
   \<and> map_option (\<lambda>c. regFile c ! 1)
        (executePipeline (loadProgram undefinedWordProgram) (int (7 + k)) False) = Some 0"
proof -
  let ?a = "\<lambda>fw. cycles 7 fw (startPipeline (loadProgram addiProgram))"
  let ?u = "\<lambda>fw. cycles 7 fw (startPipeline (loadProgram undefinedWordProgram))"
  have d: "opcode (decodeInstruction 0x020000B3 inst) = INVALID
   \<and> regWrite (setControlSignals (decodeInstruction 0x020000B3 inst))"
    by (simp add: decodeInstruction_def decode_R_def funct7_def funct3_def
        setControlSignals_def Let_def)
  have at: "?a True \<noteq> None" "drained (the (?a True))"
    and atv: "regFile (the (?a True)) ! 1 = 5"
    by code_simp+
  have af: "?a False \<noteq> None" "drained (the (?a False))"
    and afv: "regFile (the (?a False)) ! 1 = 5"
    by code_simp+
  have ut: "?u True \<noteq> None" "drained (the (?u True))"
    and utv: "regFile (the (?u True)) ! 1 = 0"
    by code_simp+
  have uf: "?u False \<noteq> None" "drained (the (?u False))"
    and ufv: "regFile (the (?u False)) ! 1 = 0"
    by code_simp+
  show ?thesis
    using d run_beyond_drain[OF at, where g = "\<lambda>r. r ! 1" and k = k]
      run_beyond_drain[OF af, where g = "\<lambda>r. r ! 1" and k = k]
      run_beyond_drain[OF ut, where g = "\<lambda>r. r ! 1" and k = k]
      run_beyond_drain[OF uf, where g = "\<lambda>r. r ! 1" and k = k]
    by (simp only: atv afv utv ufv)
qed

section \<open>Operand selection in the execute stage under forwarding\<close>

text \<open>
  The forwarding unit is called on \<open>exMemEntered\<close>, whose control signals are already
  those of the instruction in ID/EX. Its selection is the one the specification describes
  whenever the destination in EX/MEM is not the source register asked for, or the
  instruction in ID/EX and the entry in EX/MEM agree on registerWrite.
\<close>

lemma forwardSelect_entered:
  assumes "rd (exmem_instruction (exMem cpu)) \<noteq> r
           \<or> regWrite (idex_control (idEx cpu)) = regWrite (exmem_control (exMem cpu))"
  shows "forwardedValue cpu (forwardSelect r (exMemEntered cpu) (memWb cpu)) latched
         = spec_forwardOperand cpu r latched"
  using assms
  by (auto simp: forwardSelect_def exMemEntered_def forwardedValue_def spec_forwardOperand_def)

lemma forwardSelect_zero: "forwardSelect 0 ex mw = FROM_REG"
  by (simp add: forwardSelect_def)

lemma aluInput1_agrees:
  assumes "idex_valid (idEx cpu)"
    and "rd (exmem_instruction (exMem cpu)) \<noteq> rs1 (idex_instruction (idEx cpu))
         \<or> regWrite (idex_control (idEx cpu)) = regWrite (exmem_control (exMem cpu))"
  shows "aluInput1 cpu True
         = spec_forwardOperand cpu (rs1 (idex_instruction (idEx cpu))) (idex_readData1 (idEx cpu))"
  using assms(1) by (simp add: aluInput1_def detectForwarding_def forwardSelect_entered[OF assms(2)])

lemma aluInput2_agrees:
  assumes "idex_valid (idEx cpu)"
    and "rd (exmem_instruction (exMem cpu)) \<noteq> rs2 (idex_instruction (idEx cpu))
         \<or> regWrite (idex_control (idEx cpu)) = regWrite (exmem_control (exMem cpu))"
  shows "aluInput2 cpu True
         = (if aluSrc (idex_control (idEx cpu)) then idex_immediate (idEx cpu)
            else spec_forwardOperand cpu (rs2 (idex_instruction (idEx cpu)))
                   (idex_readData2 (idEx cpu)))"
  using assms(1) by (simp add: aluInput2_def detectForwarding_def forwardSelect_entered[OF assms(2)])

text \<open>
  C5 fails on the code. In the fifth cycle of \<open>addi x1,x0,5; sw x0,100(x0); add x3,x1,x0\<close>
  with forwarding enabled, the \<open>add\<close> enters Execute with source register \<open>x1\<close>. EX/MEM and
  MEM/WB both hold the store, whose registerWrite is unset and whose \<open>rd\<close> field still holds
  the 1 left by the \<open>addi\<close>. By the rule of the claim neither register qualifies, so the
  value latched at decode time (0) is the first operand; the execute stage takes the ALU
  result of the store, 100, instead, and the run ends with \<open>x3 = 100\<close> for every cycle
  count from 7 on. The operand selection of the decode stage, on the same registers, does
  not forward from the store and reads \<open>x1 = 5\<close> from the register file.
\<close>

theorem execute_forwards_from_store:
  "Option.bind (executePipeline (loadProgram storeThenAdd) 4 True) executeInput
     = Some forwardExample
   \<and> idex_valid (idEx forwardExample)
   \<and> opcode (idex_instruction (idEx forwardExample)) = ADD
   \<and> rs1 (idex_instruction (idEx forwardExample)) = 1
   \<and> exmem_valid (exMem forwardExample)
   \<and> opcode (exmem_instruction (exMem forwardExample)) = SW
   \<and> rd (exmem_instruction (exMem forwardExample)) = 1
   \<and> \<not> regWrite (exmem_control (exMem forwardExample))
   \<and> \<not> regWrite (memwb_control (memWb forwardExample))
   \<and> idex_readData1 (idEx forwardExample) = 0
   \<and> spec_forwardOperand forwardExample 1 (idex_readData1 (idEx forwardExample)) = 0
   \<and> result (exmem_aluResult (exMem forwardExample)) = 100
   \<and> aluInput1 forwardExample True = 100
   \<and> decodeOperand forwardExample True 1 = 5
   \<and> map_option (\<lambda>c. take 4 (regFile c))
        (executePipeline (loadProgram storeThenAdd) (int (7 + k)) True) = Some [0, 5, 0, 100]"
proof -
  let ?s = "cycles 7 True (startPipeline (loadProgram storeThenAdd))"
  have reached: "Option.bind (executePipeline (loadProgram storeThenAdd) 4 True) executeInput
     = Some forwardExample"
    by code_simp
  have regs: "idex_valid (idEx forwardExample)
   \<and> opcode (idex_instruction (idEx forwardExample)) = ADD
   \<and> rs1 (idex_instruction (idEx forwardExample)) = 1
   \<and> exmem_valid (exMem forwardExample)
   \<and> opcode (exmem_instruction (exMem forwardExample)) = SW
   \<and> rd (exmem_instruction (exMem forwardExample)) = 1
   \<and> \<not> regWrite (exmem_control (exMem forwardExample))
   \<and> \<not> regWrite (memwb_control (memWb forwardExample))
   \<and> idex_readData1 (idEx forwardExample) = 0"
    by code_simp
  have ops: "spec_forwardOperand forwardExample 1 (idex_readData1 (idEx forwardExample)) = 0
   \<and> result (exmem_aluResult (exMem forwardExample)) = 100
   \<and> aluInput1 forwardExample True = 100
   \<and> decodeOperand forwardExample True 1 = 5"
    by code_simp
  have t: "?s \<noteq> None" "drained (the ?s)"
    and tv: "take 4 (regFile (the ?s)) = [0, 5, 0, 100]"
    by code_simp+
  have run: "map_option (\<lambda>c. take 4 (regFile c))
        (executePipeline (loadProgram storeThenAdd) (int (7 + k)) True) = Some [0, 5, 0, 100]"
    using run_beyond_drain[OF t, where g = "take 4" and k = k] by (simp only: tv)
  from reached regs ops run show ?thesis by blast
qed

end
